theory Spec2Isabelle
  imports Main "HOL-Library.Sublist"
begin

section \<open>Python primitives used by the two scripts\<close>

text \<open>
  Text is a \<^typ>\<open>string\<close>; a character is read as one of the code points 0 to 255.
  Every exception the scripts can raise inside the modelled code is a value of
  \<open>error\<close>; a computation that may raise returns \<open>error + 'a\<close>, with \<open>Inl\<close> for
  the exception.
\<close>

datatype error = IndexError | KeyError | ValueError | ReError

text \<open>Sequencing: the second computation runs only when the first did not raise.\<close>

definition bnd :: "error + 'a \<Rightarrow> ('a \<Rightarrow> error + 'b) \<Rightarrow> error + 'b" where
  "bnd r f = (case r of Inl e \<Rightarrow> Inl e | Inr x \<Rightarrow> f x)"

text \<open>\<open>xs[i]\<close> for a literal index \<open>i \<ge> 0\<close>: IndexError past the end.\<close>

definition index :: "'a list \<Rightarrow> nat \<Rightarrow> error + 'a" where
  "index xs i = (if i < length xs then Inr (xs ! i) else Inl IndexError)"

text \<open>\<open>xs.insert(i, x)\<close> for \<open>i \<ge> 0\<close>: an index past the end appends.\<close>

definition insert_py :: "nat \<Rightarrow> 'a \<Rightarrow> 'a list \<Rightarrow> 'a list" where
  "insert_py i x xs = take i xs @ [x] @ drop i xs"

text \<open>
  \<open>s.split(sep)\<close>: the parts between the occurrences of \<open>sep\<close>, found from the left
  and not overlapping. \<open>split_parts\<close> is the scan for a separator that is not empty;
  on the empty separator Python raises ValueError.
\<close>

fun split_parts :: "string \<Rightarrow> string \<Rightarrow> string list" where
  "split_parts sep [] = [[]]"
| "split_parts sep (x # xs) =
     (if prefix sep (x # xs) then [] # split_parts sep (drop (length sep - 1) xs)
      else (let r = split_parts sep xs in (x # hd r) # tl r))"

definition split_py :: "string \<Rightarrow> string \<Rightarrow> error + string list" where
  "split_py sep s = (if sep = [] then Inl ValueError else Inr (split_parts sep s))"

text \<open>
  \<open>s.replace(old, new)\<close>: every occurrence of \<open>old\<close>, found from the left and not
  overlapping, becomes \<open>new\<close>. With an empty \<open>old\<close> Python puts \<open>new\<close> before every
  character and at the end.
\<close>

fun replace_scan :: "string \<Rightarrow> string \<Rightarrow> string \<Rightarrow> string" where
  "replace_scan old new [] = []"
| "replace_scan old new (x # xs) =
     (if prefix old (x # xs) then new @ replace_scan old new (drop (length old - 1) xs)
      else x # replace_scan old new xs)"

definition replace_py :: "string \<Rightarrow> string \<Rightarrow> string \<Rightarrow> string" where
  "replace_py old new s =
     (if old = [] then new @ concat (map (\<lambda>c. c # new) s) else replace_scan old new s)"

text \<open>
  A dict keeps its keys in the order of their first insertion; storing under a key that
  is already there replaces the value and keeps the key's place. \<open>dict_literal\<close> is the
  display \<open>{k1: v1, k2: v2, ...}\<close>, which stores the items from left to right.
\<close>

fun dict_set :: "('k \<times> 'v) list \<Rightarrow> 'k \<Rightarrow> 'v \<Rightarrow> ('k \<times> 'v) list" where
  "dict_set [] k v = [(k, v)]"
| "dict_set ((k', v') # d) k v =
     (if k' = k then (k, v) # d else (k', v') # dict_set d k v)"

definition dict_literal :: "('k \<times> 'v) list \<Rightarrow> ('k \<times> 'v) list" where
  "dict_literal items = foldl (\<lambda>d (k, v). dict_set d k v) [] items"

section \<open>blurayInfo.py: the detail tool\<close>

subsection \<open>The URL of the detail page\<close>

definition baseURL :: string where
  "baseURL = ''https://www.blu-ray.com/movies/''"

definition titleClean :: "string \<Rightarrow> error + string" where
  "titleClean titleInput =
     bnd (split_py '' ('' titleInput) (\<lambda>ps.
     bnd (index ps 0) (\<lambda>p.
     Inr (replace_py ''+'' ''and'' (replace_py '' '' ''-'' p))))"

text \<open>\<open>titleID\<close> is the second command-line argument, a string; \<open>str\<close> returns it.\<close>

definition titleURL :: "string \<Rightarrow> string \<Rightarrow> error + string" where
  "titleURL titleInput titleID =
     bnd (titleClean titleInput) (\<lambda>c.
     Inr (baseURL @ c @ ''-Blu-ray/'' @ titleID @ ''/''))"

subsection \<open>The ratings table\<close>

text \<open>
  \<open>td\<close> is the flat sequence of the table's cells, each cell given by its text.
  \<open>cells_at\<close> reads the cells of a dict display \<open>{td[i].text: td[j].text, ...}\<close> from
  left to right, key before value; the first index past the end raises.
\<close>

fun cells_at :: "string list \<Rightarrow> (nat \<times> nat) list \<Rightarrow> error + (string \<times> string) list" where
  "cells_at td [] = Inr []"
| "cells_at td ((i, j) # offs) =
     bnd (index td i) (\<lambda>k.
     bnd (index td j) (\<lambda>v.
     bnd (cells_at td offs) (\<lambda>items.
     Inr ((k, v) # items))))"

definition ratings :: "string list \<Rightarrow> error + (string \<times> string) list" where
  "ratings td =
     bnd (index td 0) (\<lambda>c0.
     bnd (if c0 = ''3D'' then cells_at td [(0, 2), (3, 5), (6, 8), (9, 11), (12, 14)]
          else if c0 = ''Video 4k'' then cells_at td [(0, 2), (3, 5), (6, 8), (9, 11)]
          else cells_at td [(0, 2), (3, 5), (6, 8)]) (\<lambda>items.
     Inr (dict_literal items)))"

subsection \<open>The release record\<close>

text \<open>
  What the script reads off the parsed page: the text of the subheading span, the texts
  of the rating table's cells, and the four attribute values it inserts into
  \<open>titleInfo\<close>. A \<open>page\<close> holds the values of lookups that returned: a run in
  which an element or an attribute is absent ends with the exception of that lookup
  before a record is made, and is not a value of this type. What is proved below of the
  list and of the constructor is proved of the runs whose lookups returned.
\<close>

record page =
  subheading :: string
  rating_td :: "string list"
  frontimage_src :: string
  buylink_href :: string
  imdb_href :: string
  trailer_src :: string

text \<open>
  The class \<open>release\<close>. Its attribute \<open>length\<close> is the field \<open>length'\<close> here, since
  \<open>length\<close> is the length of a list.
\<close>

record release =
  studio :: string
  year :: string
  length' :: string
  rating :: string
  date :: string
  coverArt :: string
  amazon :: string
  imdbURL :: string
  imdbID :: string
  trailer :: string
  title :: string

text \<open>The placeholder for an absent studio, and the five insertions at 5 to 9.\<close>

definition assemble :: "string list \<Rightarrow> page \<Rightarrow> string \<Rightarrow> string list" where
  "assemble titleInfo pg titleInput =
     (let t0 = (if length titleInfo = 4 then insert_py 0 [] titleInfo else titleInfo);
          t1 = insert_py 5 (frontimage_src pg) t0;
          t2 = insert_py 6 (buylink_href pg) t1;
          t3 = insert_py 7 (imdb_href pg) t2;
          t4 = insert_py 8 (trailer_src pg) t3
      in insert_py 9 titleInput t4)"

text \<open>\<open>release.__init__\<close>: ten reads by position, and the split of the IMDB URL.\<close>

definition release_init :: "string list \<Rightarrow> error + release" where
  "release_init dictionary =
     bnd (index dictionary 0) (\<lambda>d0.
     bnd (index dictionary 1) (\<lambda>d1.
     bnd (index dictionary 2) (\<lambda>d2.
     bnd (index dictionary 3) (\<lambda>d3.
     bnd (index dictionary 4) (\<lambda>d4.
     bnd (index dictionary 5) (\<lambda>d5.
     bnd (index dictionary 6) (\<lambda>d6.
     bnd (index dictionary 7) (\<lambda>d7.
     bnd (split_py ''/'' d7) (\<lambda>segs.
     bnd (index segs 4) (\<lambda>seg4.
     bnd (index dictionary 8) (\<lambda>d8.
     bnd (index dictionary 9) (\<lambda>d9.
     Inr \<lparr>studio = d0, year = d1, length' = d2, rating = d3, date = d4,
          coverArt = d5, amazon = d6, imdbURL = d7, imdbID = seg4,
          trailer = d8, title = d9\<rparr>))))))))))))"

text \<open>
  The script from the parsed page on: the subheading is split, the ratings are built,
  the list is completed, the record is made. The result is the pair the script prints.
\<close>

definition detail_tool :: "string \<Rightarrow> page \<Rightarrow> error + release \<times> (string \<times> string) list" where
  "detail_tool titleInput pg =
     bnd (split_py '' | '' (subheading pg)) (\<lambda>titleInfo.
     bnd (ratings (rating_td pg)) (\<lambda>rt.
     bnd (release_init (assemble titleInfo pg titleInput)) (\<lambda>movieRelease.
     Inr (movieRelease, rt))))"

section \<open>bluraySearch.py: the search tool\<close>

subsection \<open>The extractor\<close>

text \<open>
  A result card is a \<open>div\<close> of the page. \<open>div.a\<close> is its first link, if it has one;
  \<open>div.a.img\<close> is that link's first image, if it has one; \<open>tag['name']\<close> reads an
  attribute and raises KeyError when the tag does not have it.
\<close>

record img_tag =
  img_attrs :: "string \<rightharpoonup> string"

record a_tag =
  a_attrs :: "string \<rightharpoonup> string"
  a_img :: "img_tag option"

record div_tag =
  div_a :: "a_tag option"

definition attr :: "(string \<rightharpoonup> string) \<Rightarrow> string \<Rightarrow> error + string" where
  "attr attrs name = (case attrs name of None \<Rightarrow> Inl KeyError | Some v \<Rightarrow> Inr v)"

text \<open>
  An entry of \<open>movies\<close> is a dict with seven fixed keys; the key \<open>"title"\<close> is the field
  \<open>movie_title\<close>, the other fields are named as the keys are.
\<close>

record movie =
  movie_title :: string
  categoryID :: string
  parentID :: string
  gproductID :: string
  productID :: string
  productURL :: string
  productCover :: string

text \<open>
  One assignment \<open>movies[div.a['data-productid']] = {...}\<close>: the entry is built first,
  then the key is read.
\<close>

definition movie_of :: "a_tag \<Rightarrow> error + string \<times> movie" where
  "movie_of a =
     bnd (attr (a_attrs a) ''title'') (\<lambda>t.
     bnd (attr (a_attrs a) ''data-categoryid'') (\<lambda>c.
     bnd (attr (a_attrs a) ''data-globalparentid'') (\<lambda>p.
     bnd (attr (a_attrs a) ''data-globalproductid'') (\<lambda>g.
     bnd (attr (a_attrs a) ''data-productid'') (\<lambda>i.
     bnd (attr (a_attrs a) ''href'') (\<lambda>h.
     bnd (case a_img a of Some img \<Rightarrow> attr (img_attrs img) ''src'' | None \<Rightarrow> Inr []) (\<lambda>s.
     bnd (attr (a_attrs a) ''data-productid'') (\<lambda>key.
     Inr (key, \<lparr>movie_title = t, categoryID = c, parentID = p, gproductID = g,
                productID = i, productURL = h, productCover = s\<rparr>)))))))))"

fun extractor :: "div_tag list \<Rightarrow> (string \<times> movie) list \<Rightarrow> error + (string \<times> movie) list" where
  "extractor [] movies = Inr movies"
| "extractor (d # searchresults) movies =
     (case div_a d of
        None \<Rightarrow> extractor searchresults movies
      | Some a \<Rightarrow> bnd (movie_of a) (\<lambda>(key, m). extractor searchresults (dict_set movies key m)))"

subsection \<open>The keyword as a pattern\<close>

text \<open>
  \<open>re.search(searchInput, title, re.IGNORECASE)\<close> reads the keyword as a regular
  expression. The library is modelled on the patterns made of ordinary characters and
  the dot: an ordinary character matches itself up to case, a dot matches every
  character but the newline. What the library does on a pattern with another special
  character (it may match, not match, or raise \<open>re.error\<close>) is the parameter \<open>other\<close>.
\<close>

text \<open>
  Lower case on the code points 0 to 255. There \<open>str.lower\<close> and the case folding
  of \<open>re.IGNORECASE\<close> agree, character by character, with this function. Text with a
  character above 255 is outside the model, and there the two part ways: the pattern
  \<open>s\<close> matches the long s, U+017F, which \<open>lower\<close> leaves as it is.
\<close>

definition lower_char :: "char \<Rightarrow> char" where
  "lower_char c =
     (let n = (of_char c :: nat)
      in if (65 \<le> n \<and> n \<le> 90) \<or> (192 \<le> n \<and> n \<le> 222 \<and> n \<noteq> 215)
         then char_of (n + 32) else c)"

definition re_special :: "char list" where
  "re_special = [CHR ''.'', CHR ''^'', CHR ''$'', CHR ''*'', CHR ''+'', CHR ''?'',
                 CHR ''{'', CHR ''}'', CHR ''['', CHR '']'', CHR 0x5C, CHR ''|'',
                 CHR ''('', CHR '')'']"

datatype re_atom = Lit char | AnyChar

fun re_atoms :: "string \<Rightarrow> re_atom list option" where
  "re_atoms [] = Some []"
| "re_atoms (c # cs) =
     (if c = CHR ''.'' then map_option ((#) AnyChar) (re_atoms cs)
      else if c \<in> set re_special then None
      else map_option ((#) (Lit c)) (re_atoms cs))"

fun atom_matches :: "re_atom \<Rightarrow> char \<Rightarrow> bool" where
  "atom_matches (Lit c) x = (lower_char x = lower_char c)"
| "atom_matches AnyChar x = (x \<noteq> CHR 0x0A)"

fun match_here :: "re_atom list \<Rightarrow> string \<Rightarrow> bool" where
  "match_here [] s = True"
| "match_here (a # as) [] = False"
| "match_here (a # as) (x # xs) = (atom_matches a x \<and> match_here as xs)"

fun search_atoms :: "re_atom list \<Rightarrow> string \<Rightarrow> bool" where
  "search_atoms as [] = match_here as []"
| "search_atoms as (x # xs) = (match_here as (x # xs) \<or> search_atoms as xs)"

definition re_search :: "(string \<Rightarrow> string \<Rightarrow> error + bool) \<Rightarrow> string \<Rightarrow> string \<Rightarrow> error + bool" where
  "re_search other pattern s =
     (case re_atoms pattern of
        Some as \<Rightarrow> Inr (search_atoms as s)
      | None \<Rightarrow> other pattern s)"

subsection \<open>Printing the results\<close>

text \<open>
  A run is what it wrote to standard output, line by line, and the exception that ended
  it, if one did.
\<close>

definition entry_lines :: "movie \<Rightarrow> string list" where
  "entry_lines m =
     [''   ID: '' @ productID m, ''Title: '' @ movie_title m, '' Page: '' @ productURL m,
      ''Cover: '' @ productCover m, []]"

fun print_loop :: "(string \<Rightarrow> string \<Rightarrow> error + bool) \<Rightarrow> string \<Rightarrow> (string \<times> movie) list
    \<Rightarrow> string list \<times> error option" where
  "print_loop other searchInput [] = ([], None)"
| "print_loop other searchInput ((key, m) # movies) =
     (case re_search other searchInput (movie_title m) of
        Inl e \<Rightarrow> ([], Some e)
      | Inr False \<Rightarrow> print_loop other searchInput movies
      | Inr True \<Rightarrow>
          (let (out, e) = print_loop other searchInput movies in (entry_lines m @ out, e)))"

definition no_results :: string where
  "no_results = ''No results. Try fewer words or check your spelling.''"

definition search_tool :: "(string \<Rightarrow> string \<Rightarrow> error + bool) \<Rightarrow> string \<Rightarrow> div_tag list
    \<Rightarrow> string list \<times> error option" where
  "search_tool other searchInput searchresults =
     (case extractor searchresults [] of
        Inl e \<Rightarrow> ([], Some e)
      | Inr movies \<Rightarrow>
          (if movies = [] then ([''Results:'', no_results], None)
           else (let (out, e) = print_loop other searchInput movies
                 in (''Results:'' # out, e))))"

section \<open>The specification's notions\<close>

text \<open>
  The cleaned title in the specification's words: drop the suffix that begins at the
  first occurrence of \<open>" ("\<close>, then put \<open>-\<close> for every space, then put \<open>and\<close> for
  every \<open>+\<close>. \<open>first_occurrence\<close> is the least position at which the separator stands.
\<close>

definition first_occurrence :: "string \<Rightarrow> string \<Rightarrow> nat option" where
  "first_occurrence sep s = find (\<lambda>i. prefix sep (drop i s)) [0..<length s]"

definition spec_cleanedTitle :: "string \<Rightarrow> string" where
  "spec_cleanedTitle t =
     (let a = (case first_occurrence '' ('' t of None \<Rightarrow> t | Some i \<Rightarrow> take i t);
          b = map (\<lambda>c. if c = CHR '' '' then CHR ''-'' else c) a
      in concat (map (\<lambda>c. if c = CHR ''+'' then ''and'' else [c]) b))"

text \<open>
  A title contains a keyword as a case-insensitive substring when the keyword, in lower
  case, stands somewhere in the title, in lower case. As all text here, keyword and
  title are text over the code points 0 to 255.
\<close>

definition ci_contains :: "string \<Rightarrow> string \<Rightarrow> bool" where
  "ci_contains K t = sublist (map lower_char K) (map lower_char t)"

text \<open>A keyword with none of the characters that are special in a pattern.\<close>

definition re_plain :: "string \<Rightarrow> bool" where
  "re_plain K = list_all (\<lambda>c. c \<notin> set re_special) K"

section \<open>Facts about the primitives\<close>

lemma bnd_Inr [simp]: "bnd (Inr x) f = f x"
  by (simp add: bnd_def)

lemma bnd_Inl [simp]: "bnd (Inl e) f = Inl e"
  by (simp add: bnd_def)

lemma split_py_Cons [simp]: "split_py (c # cs) s = Inr (split_parts (c # cs) s)"
  by (simp add: split_py_def)

lemma split_parts_not_Nil [simp]: "split_parts sep s \<noteq> []"
  by (induction sep s rule: split_parts.induct) (simp_all add: Let_def)

lemma length_insert_py [simp]: "length (insert_py i x xs) = Suc (length xs)"
  by (simp add: insert_py_def)

lemma insert_py_append: "length xs = i \<Longrightarrow> insert_py i x (xs @ ys) = xs @ x # ys"
  by (simp add: insert_py_def)

text \<open>A dict display whose keys differ pairwise keeps every item, in order.\<close>

lemma dict_set_fresh: "k \<notin> fst ` set d \<Longrightarrow> dict_set d k v = d @ [(k, v)]"
  by (induction d) auto

lemma foldl_dict_set_distinct:
  "distinct (map fst (d @ items)) \<Longrightarrow> foldl (\<lambda>d (k, v). dict_set d k v) d items = d @ items"
proof (induction items arbitrary: d)
  case Nil
  then show ?case by simp
next
  case (Cons kv items)
  obtain k v where kv: "kv = (k, v)" by (cases kv)
  from Cons.prems kv have fresh: "k \<notin> fst ` set d" by auto
  from Cons.prems kv have "distinct (map fst ((d @ [(k, v)]) @ items))" by auto
  from Cons.IH [OF this] show ?case by (simp add: kv dict_set_fresh [OF fresh])
qed

lemma dict_literal_distinct: "distinct (map fst items) \<Longrightarrow> dict_literal items = items"
  using foldl_dict_set_distinct [of "[]" items] by (simp add: dict_literal_def)

section \<open>Facts about the detail tool\<close>

text \<open>The cells of a dict display are read, all of them, or the read raises IndexError.\<close>

lemma cells_at_eq:
  "cells_at td offs =
     (if \<forall>(i, j) \<in> set offs. i < length td \<and> j < length td
      then Inr (map (\<lambda>(i, j). (td ! i, td ! j)) offs) else Inl IndexError)"
  by (induction offs) (auto simp: index_def split: if_splits)

text \<open>
  The constructor succeeds exactly on a list of at least ten elements whose element 7
  has at least five segments.
\<close>

lemma release_init_eq:
  "release_init d =
     (if 10 \<le> length d \<and> 4 < length (split_parts ''/'' (d ! 7))
      then Inr \<lparr>studio = d ! 0, year = d ! 1, length' = d ! 2, rating = d ! 3, date = d ! 4,
                coverArt = d ! 5, amazon = d ! 6, imdbURL = d ! 7,
                imdbID = split_parts ''/'' (d ! 7) ! 4, trailer = d ! 8, title = d ! 9\<rparr>
      else Inl IndexError)"
  by (simp add: release_init_def index_def)

lemma length_assemble:
  "length (assemble parts pg t) = (if length parts = 4 then 10 else length parts + 5)"
  by (simp add: assemble_def Let_def)

lemma list4: "length xs = 4 \<Longrightarrow> \<exists>a b c d. xs = [a, b, c, d]"
  by (simp add: numeral_eq_Suc length_Suc_conv) blast

lemma assemble_4:
  assumes "length parts = 4"
  shows "assemble parts pg t =
     [[], parts ! 0, parts ! 1, parts ! 2, parts ! 3,
      frontimage_src pg, buylink_href pg, imdb_href pg, trailer_src pg, t]"
proof -
  from list4 [OF assms] obtain a b c d where "parts = [a, b, c, d]" by blast
  then show ?thesis by (simp add: assemble_def insert_py_def)
qed

lemma assemble_ge5:
  assumes "5 \<le> length parts"
  shows "assemble parts pg t =
     take 5 parts @ [frontimage_src pg, buylink_href pg, imdb_href pg, trailer_src pg, t]
       @ drop 5 parts"
proof -
  have len: "length parts \<noteq> 4" using assms by simp
  have l5: "length (take 5 parts) = 5" using assms by simp
  have s1: "insert_py 5 a parts = take 5 parts @ a # drop 5 parts" for a
    by (simp add: insert_py_def)
  have s2: "insert_py 6 b (take 5 parts @ a # r) = (take 5 parts @ [a]) @ b # r" for a b r
    using insert_py_append [of "take 5 parts @ [a]" 6 b r] l5 by simp
  have s3: "insert_py 7 c ((take 5 parts @ [a]) @ b # r) = (take 5 parts @ [a, b]) @ c # r"
    for a b c r
    using insert_py_append [of "take 5 parts @ [a, b]" 7 c r] l5 by simp
  have s4: "insert_py 8 e ((take 5 parts @ [a, b]) @ c # r) = (take 5 parts @ [a, b, c]) @ e # r"
    for a b c e r
    using insert_py_append [of "take 5 parts @ [a, b, c]" 8 e r] l5 by simp
  have s5: "insert_py 9 f ((take 5 parts @ [a, b, c]) @ e # r)
      = (take 5 parts @ [a, b, c, e]) @ f # r" for a b c e f r
    using insert_py_append [of "take 5 parts @ [a, b, c, e]" 9 f r] l5 by simp
  show ?thesis
    unfolding assemble_def Let_def using len by (simp only: if_False s1 s2 s3 s4 s5) simp
qed

section \<open>The URL of the detail page\<close>

lemma find_map_Suc: "find P (map Suc l) = map_option Suc (find (\<lambda>i. P (Suc i)) l)"
  by (induction l) auto

lemma first_occurrence_Nil [simp]: "first_occurrence sep [] = None"
  by (simp add: first_occurrence_def)

lemma first_occurrence_Cons:
  "first_occurrence sep (x # xs) =
     (if prefix sep (x # xs) then Some 0 else map_option Suc (first_occurrence sep xs))"
proof -
  have "[0..<length (x # xs)] = 0 # map Suc [0..<length xs]"
    by (simp add: upt_conv_Cons map_Suc_upt del: upt_Suc)
  then show ?thesis
    by (simp add: first_occurrence_def find_map_Suc)
qed

text \<open>The first part of a split is what stands before the first separator.\<close>

lemma hd_split_parts:
  "sep \<noteq> [] \<Longrightarrow>
   hd (split_parts sep s) = (case first_occurrence sep s of None \<Rightarrow> s | Some i \<Rightarrow> take i s)"
  by (induction s) (auto simp: first_occurrence_Cons Let_def split: option.splits)

lemma replace_scan_char:
  "replace_scan [c] new s = concat (map (\<lambda>x. if x = c then new else [x]) s)"
  by (induction s) auto

lemma concat_map_single:
  "concat (map (\<lambda>x. if x = c then [d] else [x]) s) = map (\<lambda>x. if x = c then d else x) s"
  by (induction s) auto

lemma titleClean_spec: "titleClean t = Inr (spec_cleanedTitle t)"
proof -
  have "index (split_parts '' ('' t) 0 = Inr (hd (split_parts '' ('' t))"
    by (simp add: index_def hd_conv_nth)
  then show ?thesis
    by (simp add: titleClean_def spec_cleanedTitle_def replace_py_def replace_scan_char
        concat_map_single hd_split_parts Let_def)
qed

text \<open>
  C4. For every title and identifier the script builds the URL without raising, and the
  URL is the base, the title cleaned as the specification says (the suffix from the first
  \<open>" ("\<close> dropped, then \<open>-\<close> for every space, then \<open>and\<close> for every \<open>+\<close>), the text
  \<open>-Blu-ray/\<close>, the identifier and a slash. The title \<open>Sinners (2025)\<close> cleans to
  \<open>Sinners\<close>.
\<close>

theorem titleURL_built:
  "titleURL t i = Inr (baseURL @ spec_cleanedTitle t @ ''-Blu-ray/'' @ i @ ''/'')
   \<and> titleClean ''Sinners (2025)'' = Inr ''Sinners''"
proof
  show "titleURL t i = Inr (baseURL @ spec_cleanedTitle t @ ''-Blu-ray/'' @ i @ ''/'')"
    by (simp add: titleURL_def titleClean_spec)
  show "titleClean ''Sinners (2025)'' = Inr ''Sinners''"
    by (simp add: titleClean_def index_def replace_py_def)
qed

theorem titleURL_built_witness:
  "titleURL ''Sinners (2025)'' ''123''
     = Inr ''https://www.blu-ray.com/movies/Sinners-Blu-ray/123/''"
proof -
  have "spec_cleanedTitle ''Sinners (2025)'' = ''Sinners''"
    by code_simp
  then show ?thesis
    using titleURL_built [of "''Sinners (2025)''" "''123''"] by (simp add: baseURL_def)
qed

section \<open>The ratings table\<close>

text \<open>
  C2, as the code has it. A table with enough cells for its variant (15 for \<open>3D\<close>, 12
  for \<open>Video 4k\<close>, 9 otherwise) gives the dict display of the pairs at the offsets
  (0,2), (3,5), (6,8), (9,11), (12,14), the first five, four or three of them. When the
  category labels differ pairwise the mapping is exactly these five, four or three
  pairs; a label that comes again keeps one entry, with the last value.
\<close>

theorem ratings_variants:
  "(15 \<le> length td \<and> td ! 0 = ''3D'' \<longrightarrow>
      ratings td = Inr (dict_literal [(td ! 0, td ! 2), (td ! 3, td ! 5), (td ! 6, td ! 8),
                                      (td ! 9, td ! 11), (td ! 12, td ! 14)])
      \<and> (distinct [td ! 0, td ! 3, td ! 6, td ! 9, td ! 12] \<longrightarrow>
           ratings td = Inr [(td ! 0, td ! 2), (td ! 3, td ! 5), (td ! 6, td ! 8),
                             (td ! 9, td ! 11), (td ! 12, td ! 14)]))
   \<and> (12 \<le> length td \<and> td ! 0 = ''Video 4k'' \<longrightarrow>
      ratings td = Inr (dict_literal [(td ! 0, td ! 2), (td ! 3, td ! 5), (td ! 6, td ! 8),
                                      (td ! 9, td ! 11)])
      \<and> (distinct [td ! 0, td ! 3, td ! 6, td ! 9] \<longrightarrow>
           ratings td = Inr [(td ! 0, td ! 2), (td ! 3, td ! 5), (td ! 6, td ! 8),
                             (td ! 9, td ! 11)]))
   \<and> (9 \<le> length td \<and> td ! 0 \<noteq> ''3D'' \<and> td ! 0 \<noteq> ''Video 4k'' \<longrightarrow>
      ratings td = Inr (dict_literal [(td ! 0, td ! 2), (td ! 3, td ! 5), (td ! 6, td ! 8)])
      \<and> (distinct [td ! 0, td ! 3, td ! 6] \<longrightarrow>
           ratings td = Inr [(td ! 0, td ! 2), (td ! 3, td ! 5), (td ! 6, td ! 8)]))"
proof -
  have v3: "ratings td = Inr (dict_literal [(td ! 0, td ! 2), (td ! 3, td ! 5), (td ! 6, td ! 8),
                                      (td ! 9, td ! 11), (td ! 12, td ! 14)])"
    if "15 \<le> length td" "td ! 0 = ''3D''"
    using that by (auto simp: ratings_def index_def cells_at_eq)
  have v4: "ratings td = Inr (dict_literal [(td ! 0, td ! 2), (td ! 3, td ! 5), (td ! 6, td ! 8),
                                      (td ! 9, td ! 11)])"
    if "12 \<le> length td" "td ! 0 = ''Video 4k''"
    using that by (auto simp: ratings_def index_def cells_at_eq)
  have v0: "ratings td = Inr (dict_literal [(td ! 0, td ! 2), (td ! 3, td ! 5), (td ! 6, td ! 8)])"
    if "9 \<le> length td" "td ! 0 \<noteq> ''3D''" "td ! 0 \<noteq> ''Video 4k''"
    using that by (auto simp: ratings_def index_def cells_at_eq)
  have d: "distinct (map fst items) \<Longrightarrow> ratings td = Inr (dict_literal items)
      \<Longrightarrow> ratings td = Inr items" for items
    by (simp add: dict_literal_distinct)
  show ?thesis
  proof (intro conjI impI)
    assume h: "15 \<le> length td \<and> td ! 0 = ''3D''"
    then show a: "ratings td = Inr (dict_literal [(td ! 0, td ! 2), (td ! 3, td ! 5), (td ! 6, td ! 8),
                                      (td ! 9, td ! 11), (td ! 12, td ! 14)])"
      using v3 by blast
    assume "distinct [td ! 0, td ! 3, td ! 6, td ! 9, td ! 12]"
    then show "ratings td = Inr [(td ! 0, td ! 2), (td ! 3, td ! 5), (td ! 6, td ! 8),
                             (td ! 9, td ! 11), (td ! 12, td ! 14)]"
      using d [OF _ a] by simp
  next
    assume h: "12 \<le> length td \<and> td ! 0 = ''Video 4k''"
    then show a: "ratings td = Inr (dict_literal [(td ! 0, td ! 2), (td ! 3, td ! 5), (td ! 6, td ! 8),
                                      (td ! 9, td ! 11)])"
      using v4 by blast
    assume "distinct [td ! 0, td ! 3, td ! 6, td ! 9]"
    then show "ratings td = Inr [(td ! 0, td ! 2), (td ! 3, td ! 5), (td ! 6, td ! 8),
                             (td ! 9, td ! 11)]"
      using d [OF _ a] by simp
  next
    assume h: "9 \<le> length td \<and> td ! 0 \<noteq> ''3D'' \<and> td ! 0 \<noteq> ''Video 4k''"
    then show a: "ratings td = Inr (dict_literal [(td ! 0, td ! 2), (td ! 3, td ! 5), (td ! 6, td ! 8)])"
      using v0 by blast
    assume "distinct [td ! 0, td ! 3, td ! 6]"
    then show "ratings td = Inr [(td ! 0, td ! 2), (td ! 3, td ! 5), (td ! 6, td ! 8)]"
      using d [OF _ a] by simp
  qed
qed

theorem ratings_variants_witness:
  "ratings [''3D'', [], ''4.0'', ''Video 4K'', [], ''5.0'', ''Video'', [], ''4.5'',
            ''Audio'', [], ''5.0'', ''Extras'', [], ''3.0'']
     = Inr [(''3D'', ''4.0''), (''Video 4K'', ''5.0''), (''Video'', ''4.5''),
            (''Audio'', ''5.0''), (''Extras'', ''3.0'')]
   \<and> ratings [''Video 4k'', [], ''5.0'', ''Video'', [], ''4.5'', ''Audio'', [], ''5.0'',
              ''Extras'', [], ''3.0'']
     = Inr [(''Video 4k'', ''5.0''), (''Video'', ''4.5''), (''Audio'', ''5.0''),
            (''Extras'', ''3.0'')]
   \<and> ratings [''Video'', [], ''4.5'', ''Audio'', [], ''5.0'', ''Extras'', [], ''3.0'']
     = Inr [(''Video'', ''4.5''), (''Audio'', ''5.0''), (''Extras'', ''3.0'')]"
  using
    ratings_variants [of "[''3D'', [], ''4.0'', ''Video 4K'', [], ''5.0'', ''Video'', [], ''4.5'',
            ''Audio'', [], ''5.0'', ''Extras'', [], ''3.0'']"]
    ratings_variants [of "[''Video 4k'', [], ''5.0'', ''Video'', [], ''4.5'', ''Audio'', [], ''5.0'',
              ''Extras'', [], ''3.0'']"]
    ratings_variants [of "[''Video'', [], ''4.5'', ''Audio'', [], ''5.0'', ''Extras'', [], ''3.0'']"]
  by (simp add: dict_literal_def)

text \<open>
  The claim as written fails: a \<open>3D\<close> table of 15 cells whose second row is labelled
  \<open>3D\<close> again gives four pairs, and a \<open>3D\<close> table of three cells gives no mapping.
\<close>

theorem ratings_pairs_counterexample:
  "ratings [''3D'', [], ''4.5'', ''3D'', [], ''4.0'', ''Video'', [], ''4.5'',
            ''Audio'', [], ''5.0'', ''Extras'', [], ''3.0'']
     = Inr [(''3D'', ''4.0''), (''Video'', ''4.5''), (''Audio'', ''5.0''), (''Extras'', ''3.0'')]
   \<and> ratings [''3D'', [], ''4.5''] = Inl IndexError"
  by (simp add: ratings_def index_def dict_literal_def)

text \<open>
  C6. A table with fewer cells than its variant reads (15 for \<open>3D\<close>, 12 for
  \<open>Video 4k\<close>, 9 otherwise; an empty table has no cell 0 to choose by) makes the
  extraction raise IndexError: no mapping, partial or whole, is produced.
\<close>

theorem ratings_short_table:
  "ratings [] = Inl IndexError
   \<and> (td \<noteq> [] \<and> td ! 0 = ''3D'' \<and> length td < 15 \<longrightarrow> ratings td = Inl IndexError)
   \<and> (td \<noteq> [] \<and> td ! 0 = ''Video 4k'' \<and> length td < 12 \<longrightarrow> ratings td = Inl IndexError)
   \<and> (td \<noteq> [] \<and> td ! 0 \<noteq> ''3D'' \<and> td ! 0 \<noteq> ''Video 4k'' \<and> length td < 9 \<longrightarrow>
        ratings td = Inl IndexError)"
proof (intro conjI impI)
  show "ratings [] = Inl IndexError" by (simp add: ratings_def index_def)
next
  assume "td \<noteq> [] \<and> td ! 0 = ''3D'' \<and> length td < 15"
  then show "ratings td = Inl IndexError"
    by (simp add: ratings_def index_def cells_at_eq)
next
  assume "td \<noteq> [] \<and> td ! 0 = ''Video 4k'' \<and> length td < 12"
  then show "ratings td = Inl IndexError"
    by (simp add: ratings_def index_def cells_at_eq)
next
  assume "td \<noteq> [] \<and> td ! 0 \<noteq> ''3D'' \<and> td ! 0 \<noteq> ''Video 4k'' \<and> length td < 9"
  then show "ratings td = Inl IndexError"
    by (simp add: ratings_def index_def cells_at_eq)
qed

theorem ratings_short_table_witness:
  "ratings [] = Inl IndexError
   \<and> ratings [''3D'', [], ''4.0'', ''Video'', [], ''4.5'', ''Audio'', [], ''5.0'',
              ''Extras'', [], ''3.0''] = Inl IndexError
   \<and> ratings [''Video 4k'', [], ''5.0'', ''Video'', [], ''4.5'', ''Audio'', [], ''5.0'']
       = Inl IndexError
   \<and> ratings [''Video'', [], ''4.5'', ''Audio'', [], ''5.0''] = Inl IndexError"
  using
    ratings_short_table [of "[''3D'', [], ''4.0'', ''Video'', [], ''4.5'', ''Audio'', [], ''5.0'',
              ''Extras'', [], ''3.0'']"]
    ratings_short_table [of "[''Video 4k'', [], ''5.0'', ''Video'', [], ''4.5'', ''Audio'', [], ''5.0'']"]
    ratings_short_table [of "[''Video'', [], ''4.5'', ''Audio'', [], ''5.0'']"]
  by simp

section \<open>The release record\<close>

lemma detail_tool_Inr:
  assumes "detail_tool titleInput pg = Inr (r, rt)"
  shows "release_init (assemble (split_parts '' | '' (subheading pg)) pg titleInput) = Inr r"
    and "ratings (rating_td pg) = Inr rt"
  using assms by (auto simp: detail_tool_def bnd_def split: sum.splits)

lemma release_init_Inr:
  assumes "release_init d = Inr r"
  shows "10 \<le> length d" and "4 < length (split_parts ''/'' (d ! 7))"
    and "r = \<lparr>studio = d ! 0, year = d ! 1, length' = d ! 2, rating = d ! 3, date = d ! 4,
                coverArt = d ! 5, amazon = d ! 6, imdbURL = d ! 7,
                imdbID = split_parts ''/'' (d ! 7) ! 4, trailer = d ! 8, title = d ! 9\<rparr>"
  using assms by (auto simp: release_init_eq split: if_splits)

lemma assemble_nth_9:
  assumes "4 \<le> length parts"
  shows "assemble parts pg t ! 9 = t"
proof (cases "length parts = 4")
  case True
  then show ?thesis by (simp add: assemble_4)
next
  case False
  with assms have ge: "5 \<le> length parts" by simp
  have "(take 5 parts @ [a, b, c, e]) @ t # r = take 5 parts @ [a, b, c, e, t] @ r" for a b c e r
    by simp
  moreover have "length (take 5 parts @ [a, b, c, e]) = 9" for a b c e :: string
    using ge by simp
  ultimately show ?thesis
    using nth_append_length [of "take 5 parts @ [frontimage_src pg, buylink_href pg, imdb_href pg, trailer_src pg]" t "drop 5 parts"]
    by (simp add: assemble_ge5 [OF ge])
qed



text \<open>
  C5. The \<open>imdbID\<close> of every record the constructor makes is segment 4 of the
  record's IMDB URL split at the slashes (the split has such a segment); for
  \<open>https://www.imdb.com/title/tt1234567/\<close> that segment is \<open>tt1234567\<close>.
\<close>

theorem imdbID_segment:
  assumes "release_init d = Inr r"
  shows "bnd (split_py ''/'' (imdbURL r)) (\<lambda>segs. index segs 4) = Inr (imdbID r)
    \<and> bnd (split_py ''/'' ''https://www.imdb.com/title/tt1234567/'') (\<lambda>segs. index segs 4)
        = Inr ''tt1234567''"
proof
  from release_init_Inr [OF assms]
  have "4 < length (split_parts ''/'' (d ! 7))" "imdbURL r = d ! 7"
    "imdbID r = split_parts ''/'' (d ! 7) ! 4"
    by simp_all
  then show "bnd (split_py ''/'' (imdbURL r)) (\<lambda>segs. index segs 4) = Inr (imdbID r)"
    by (simp add: index_def)
  show "bnd (split_py ''/'' ''https://www.imdb.com/title/tt1234567/'') (\<lambda>segs. index segs 4)
        = Inr ''tt1234567''"
    by (simp add: index_def)
qed

theorem imdbID_segment_witness:
  "release_init
      [''Warner Bros.'', ''2025'', ''137 min'', ''Rated R'', ''Jul 08, 2025'', ''cover.jpg'',
       ''https://www.amazon.com/dp/B0F1'', ''https://www.imdb.com/title/tt1234567/'',
       ''trailer.mp4'', ''Sinners (2025)'']
     = Inr \<lparr>studio = ''Warner Bros.'', year = ''2025'', length' = ''137 min'',
            rating = ''Rated R'', date = ''Jul 08, 2025'', coverArt = ''cover.jpg'',
            amazon = ''https://www.amazon.com/dp/B0F1'',
            imdbURL = ''https://www.imdb.com/title/tt1234567/'', imdbID = ''tt1234567'',
            trailer = ''trailer.mp4'', title = ''Sinners (2025)''\<rparr>
   \<and> bnd (split_py ''/'' ''https://www.imdb.com/title/tt1234567/'') (\<lambda>segs. index segs 4)
        = Inr ''tt1234567''"
proof -
  have run: "release_init
      [''Warner Bros.'', ''2025'', ''137 min'', ''Rated R'', ''Jul 08, 2025'', ''cover.jpg'',
       ''https://www.amazon.com/dp/B0F1'', ''https://www.imdb.com/title/tt1234567/'',
       ''trailer.mp4'', ''Sinners (2025)'']
     = Inr \<lparr>studio = ''Warner Bros.'', year = ''2025'', length' = ''137 min'',
            rating = ''Rated R'', date = ''Jul 08, 2025'', coverArt = ''cover.jpg'',
            amazon = ''https://www.amazon.com/dp/B0F1'',
            imdbURL = ''https://www.imdb.com/title/tt1234567/'', imdbID = ''tt1234567'',
            trailer = ''trailer.mp4'', title = ''Sinners (2025)''\<rparr>"
    by code_simp
  from imdbID_segment [OF run] run show ?thesis by simp
qed

text \<open>
  C8, as the code has it. In every run of the detail tool that assembles a record, the
  record's title is the title argument as it was given, whatever the page holds, and
  the argument stands at position 9 of the completed list. The subheading then has at
  least four parts, and the list has ten elements when it has four or five parts and
  one more for each part after the fifth.
\<close>

theorem title_echoed:
  assumes "detail_tool titleInput pg = Inr (r, rt)"
    and "parts = split_parts '' | '' (subheading pg)"
  shows "title r = titleInput
       \<and> assemble parts pg titleInput ! 9 = titleInput
       \<and> 4 \<le> length parts
       \<and> length (assemble parts pg titleInput)
           = (if length parts = 4 then 10 else length parts + 5)"
proof -
  from detail_tool_Inr(1) [OF assms(1)] assms(2)
  have made: "release_init (assemble parts pg titleInput) = Inr r" by simp
  from release_init_Inr(1) [OF made] have long: "9 < length (assemble parts pg titleInput)"
    by simp
  then have four: "4 \<le> length parts" by (simp add: length_assemble split: if_splits)
  then have at9: "assemble parts pg titleInput ! 9 = titleInput" by (rule assemble_nth_9)
  from release_init_Inr(3) [OF made] at9 have "title r = titleInput" by simp
  with four at9 show ?thesis by (simp add: length_assemble)
qed

theorem title_echoed_witness:
  "detail_tool ''Sinners (2025)''
      \<lparr>subheading = ''Warner Bros. | 2025 | 137 min | Rated R | Jul 08, 2025'',
       rating_td = [''Video'', [], ''4.5'', ''Audio'', [], ''5.0'', ''Extras'', [], ''3.0''],
       frontimage_src = ''cover.jpg'', buylink_href = ''https://www.amazon.com/dp/B0F1'',
       imdb_href = ''https://www.imdb.com/title/tt1234567/'', trailer_src = ''trailer.mp4''\<rparr>
     = Inr (\<lparr>studio = ''Warner Bros.'', year = ''2025'', length' = ''137 min'',
             rating = ''Rated R'', date = ''Jul 08, 2025'', coverArt = ''cover.jpg'',
             amazon = ''https://www.amazon.com/dp/B0F1'',
             imdbURL = ''https://www.imdb.com/title/tt1234567/'', imdbID = ''tt1234567'',
             trailer = ''trailer.mp4'', title = ''Sinners (2025)''\<rparr>,
            [(''Video'', ''4.5''), (''Audio'', ''5.0''), (''Extras'', ''3.0'')])
   \<and> assemble (split_parts '' | '' ''Warner Bros. | 2025 | 137 min | Rated R | Jul 08, 2025'')
      \<lparr>subheading = ''Warner Bros. | 2025 | 137 min | Rated R | Jul 08, 2025'',
       rating_td = [''Video'', [], ''4.5'', ''Audio'', [], ''5.0'', ''Extras'', [], ''3.0''],
       frontimage_src = ''cover.jpg'', buylink_href = ''https://www.amazon.com/dp/B0F1'',
       imdb_href = ''https://www.imdb.com/title/tt1234567/'', trailer_src = ''trailer.mp4''\<rparr>
      ''Sinners (2025)''
     = [''Warner Bros.'', ''2025'', ''137 min'', ''Rated R'', ''Jul 08, 2025'', ''cover.jpg'',
        ''https://www.amazon.com/dp/B0F1'', ''https://www.imdb.com/title/tt1234567/'',
        ''trailer.mp4'', ''Sinners (2025)'']"
proof -
  have run: "detail_tool ''Sinners (2025)''
      \<lparr>subheading = ''Warner Bros. | 2025 | 137 min | Rated R | Jul 08, 2025'',
       rating_td = [''Video'', [], ''4.5'', ''Audio'', [], ''5.0'', ''Extras'', [], ''3.0''],
       frontimage_src = ''cover.jpg'', buylink_href = ''https://www.amazon.com/dp/B0F1'',
       imdb_href = ''https://www.imdb.com/title/tt1234567/'', trailer_src = ''trailer.mp4''\<rparr>
     = Inr (\<lparr>studio = ''Warner Bros.'', year = ''2025'', length' = ''137 min'',
             rating = ''Rated R'', date = ''Jul 08, 2025'', coverArt = ''cover.jpg'',
             amazon = ''https://www.amazon.com/dp/B0F1'',
             imdbURL = ''https://www.imdb.com/title/tt1234567/'', imdbID = ''tt1234567'',
             trailer = ''trailer.mp4'', title = ''Sinners (2025)''\<rparr>,
            [(''Video'', ''4.5''), (''Audio'', ''5.0''), (''Extras'', ''3.0'')])"
    by code_simp
  have lst: "assemble (split_parts '' | '' ''Warner Bros. | 2025 | 137 min | Rated R | Jul 08, 2025'')
      \<lparr>subheading = ''Warner Bros. | 2025 | 137 min | Rated R | Jul 08, 2025'',
       rating_td = [''Video'', [], ''4.5'', ''Audio'', [], ''5.0'', ''Extras'', [], ''3.0''],
       frontimage_src = ''cover.jpg'', buylink_href = ''https://www.amazon.com/dp/B0F1'',
       imdb_href = ''https://www.imdb.com/title/tt1234567/'', trailer_src = ''trailer.mp4''\<rparr>
      ''Sinners (2025)''
     = [''Warner Bros.'', ''2025'', ''137 min'', ''Rated R'', ''Jul 08, 2025'', ''cover.jpg'',
        ''https://www.amazon.com/dp/B0F1'', ''https://www.imdb.com/title/tt1234567/'',
        ''trailer.mp4'', ''Sinners (2025)'']"
    by code_simp
  from title_echoed [OF run refl] run lst show ?thesis by simp
qed

text \<open>
  The claim as written fails: a subheading of six parts gives a record, whose title is
  the argument, but the completed list has eleven elements, not ten; the sixth part
  stands at position 10, after the title.
\<close>

theorem title_echoed_counterexample:
  "detail_tool ''Sinners (2025)''
      \<lparr>subheading = ''Warner Bros. | 2025 | 137 min | Rated R | Jul 08, 2025 | 4K'',
       rating_td = [''Video'', [], ''4.5'', ''Audio'', [], ''5.0'', ''Extras'', [], ''3.0''],
       frontimage_src = ''cover.jpg'', buylink_href = ''https://www.amazon.com/dp/B0F1'',
       imdb_href = ''https://www.imdb.com/title/tt1234567/'', trailer_src = ''trailer.mp4''\<rparr>
     = Inr (\<lparr>studio = ''Warner Bros.'', year = ''2025'', length' = ''137 min'',
             rating = ''Rated R'', date = ''Jul 08, 2025'', coverArt = ''cover.jpg'',
             amazon = ''https://www.amazon.com/dp/B0F1'',
             imdbURL = ''https://www.imdb.com/title/tt1234567/'', imdbID = ''tt1234567'',
             trailer = ''trailer.mp4'', title = ''Sinners (2025)''\<rparr>,
            [(''Video'', ''4.5''), (''Audio'', ''5.0''), (''Extras'', ''3.0'')])
   \<and> assemble
      (split_parts '' | '' ''Warner Bros. | 2025 | 137 min | Rated R | Jul 08, 2025 | 4K'')
      \<lparr>subheading = ''Warner Bros. | 2025 | 137 min | Rated R | Jul 08, 2025 | 4K'',
       rating_td = [''Video'', [], ''4.5'', ''Audio'', [], ''5.0'', ''Extras'', [], ''3.0''],
       frontimage_src = ''cover.jpg'', buylink_href = ''https://www.amazon.com/dp/B0F1'',
       imdb_href = ''https://www.imdb.com/title/tt1234567/'', trailer_src = ''trailer.mp4''\<rparr>
      ''Sinners (2025)''
     = [''Warner Bros.'', ''2025'', ''137 min'', ''Rated R'', ''Jul 08, 2025'', ''cover.jpg'',
        ''https://www.amazon.com/dp/B0F1'', ''https://www.imdb.com/title/tt1234567/'',
        ''trailer.mp4'', ''Sinners (2025)'', ''4K'']
   \<and> length (assemble
      (split_parts '' | '' ''Warner Bros. | 2025 | 137 min | Rated R | Jul 08, 2025 | 4K'')
      \<lparr>subheading = ''Warner Bros. | 2025 | 137 min | Rated R | Jul 08, 2025 | 4K'',
       rating_td = [''Video'', [], ''4.5'', ''Audio'', [], ''5.0'', ''Extras'', [], ''3.0''],
       frontimage_src = ''cover.jpg'', buylink_href = ''https://www.amazon.com/dp/B0F1'',
       imdb_href = ''https://www.imdb.com/title/tt1234567/'', trailer_src = ''trailer.mp4''\<rparr>
      ''Sinners (2025)'') = 11"
  by code_simp







section \<open>The search tool\<close>

text \<open>
  On a keyword with no special character the library's search is the case-insensitive
  substring test.
\<close>

lemma re_atoms_plain: "re_plain K \<Longrightarrow> re_atoms K = Some (map Lit K)"
  by (induction K) (auto simp: re_plain_def re_special_def)

lemma match_here_Lit:
  "match_here (map Lit K) s = prefix (map lower_char K) (map lower_char s)"
proof (induction K arbitrary: s)
  case Nil
  then show ?case by simp
next
  case (Cons c K)
  then show ?case by (cases s) auto
qed

lemma search_atoms_Lit:
  "search_atoms (map Lit K) s = sublist (map lower_char K) (map lower_char s)"
proof (induction s)
  case Nil
  then show ?case by (cases K) simp_all
next
  case (Cons x s)
  then show ?case by (simp add: sublist_Cons_right match_here_Lit)
qed

lemma re_search_plain: "re_plain K \<Longrightarrow> re_search other K s = Inr (ci_contains K s)"
  by (simp add: re_search_def re_atoms_plain search_atoms_Lit ci_contains_def)

lemma print_loop_plain:
  "re_plain K \<Longrightarrow>
   print_loop other K movies =
     (concat (map entry_lines (filter (\<lambda>m. ci_contains K (movie_title m)) (map snd movies))),
      None)"
  by (induction movies) (auto simp: re_search_plain)

text \<open>
  Whatever the keyword and whatever the library does on it, the loop prints blocks of
  entries of \<open>movies\<close>, each of them matched by the keyword.
\<close>

lemma print_loop_entries:
  "\<exists>es e. print_loop other K movies = (concat (map entry_lines es), e)
     \<and> set es \<subseteq> snd ` set movies
     \<and> (\<forall>m \<in> set es. re_search other K (movie_title m) = Inr True)"
proof (induction movies)
  case Nil
  show ?case by (rule exI [of _ "[]"]) simp
next
  case (Cons km movies)
  obtain key m where km: "km = (key, m)" by (cases km)
  from Cons obtain es e where IH: "print_loop other K movies = (concat (map entry_lines es), e)"
    "set es \<subseteq> snd ` set movies" "\<forall>m \<in> set es. re_search other K (movie_title m) = Inr True"
    by blast
  show ?case
  proof (cases "re_search other K (movie_title m)")
    case (Inl err)
    show ?thesis
      by (rule exI [of _ "[]"]) (simp add: km Inl)
  next
    case (Inr b)
    show ?thesis
    proof (cases b)
      case True
      with Inr IH show ?thesis
        by (intro exI [of _ "m # es"] exI [of _ e]) (auto simp: km)
    next
      case False
      with Inr IH show ?thesis
        by (intro exI [of _ es] exI [of _ e]) (auto simp: km)
    qed
  qed
qed

lemma print_loop_none:
  "\<forall>m \<in> snd ` set movies. re_search other K (movie_title m) = Inr False \<Longrightarrow>
   print_loop other K movies = ([], None)"
  by (induction movies) auto

text \<open>
  C1, as the code has it. For every keyword and every result set the extractor gives,
  the entries whose blocks are printed are entries of that result set, and the title of
  each is matched by the keyword read as a case-insensitive regular expression. When
  the keyword has none of the special characters, and keyword and titles are text over
  the code points 0 to 255, the run ends without an exception and the printed entries
  are exactly the extracted entries whose title contains the keyword as a
  case-insensitive substring, in the order of the result set. Nothing is said of the
  substring test on text with a character above 255.
\<close>

theorem search_filter_output:
  assumes "extractor searchresults [] = Inr movies"
  shows "(\<exists>es e. search_tool other K searchresults
              = (''Results:'' # (if movies = [] then [no_results]
                                 else concat (map entry_lines es)), e)
            \<and> set es \<subseteq> snd ` set movies
            \<and> (\<forall>m \<in> set es. re_search other K (movie_title m) = Inr True))
       \<and> (re_plain K \<longrightarrow>
            search_tool other K searchresults
              = (''Results:'' # (if movies = [] then [no_results]
                                 else concat (map entry_lines
                                   (filter (\<lambda>m. ci_contains K (movie_title m)) (map snd movies)))),
                 None))"
proof
  show "\<exists>es e. search_tool other K searchresults
              = (''Results:'' # (if movies = [] then [no_results]
                                 else concat (map entry_lines es)), e)
            \<and> set es \<subseteq> snd ` set movies
            \<and> (\<forall>m \<in> set es. re_search other K (movie_title m) = Inr True)"
  proof (cases "movies = []")
    case True
    with assms show ?thesis
      by (intro exI [of _ "[]"] exI [of _ None]) (simp add: search_tool_def)
  next
    case False
    from print_loop_entries [of other K movies] obtain es e where
      "print_loop other K movies = (concat (map entry_lines es), e)"
      "set es \<subseteq> snd ` set movies" "\<forall>m \<in> set es. re_search other K (movie_title m) = Inr True"
      by blast
    with assms False show ?thesis
      by (intro exI [of _ es] exI [of _ e]) (simp add: search_tool_def)
  qed
  show "re_plain K \<longrightarrow>
            search_tool other K searchresults
              = (''Results:'' # (if movies = [] then [no_results]
                                 else concat (map entry_lines
                                   (filter (\<lambda>m. ci_contains K (movie_title m)) (map snd movies)))),
                 None)"
    using assms by (simp add: search_tool_def print_loop_plain)
qed

theorem search_filter_output_witness:
  "extractor
      [\<lparr>div_a = Some \<lparr>a_attrs = [''title'' \<mapsto> ''Sinners'', ''data-categoryid'' \<mapsto> ''7'',
           ''data-globalparentid'' \<mapsto> ''120'', ''data-globalproductid'' \<mapsto> ''121'',
           ''data-productid'' \<mapsto> ''123'',
           ''href'' \<mapsto> ''https://www.blu-ray.com/movies/Sinners-Blu-ray/123/''],
          a_img = Some \<lparr>img_attrs = [''src'' \<mapsto> ''123_medium.jpg'']\<rparr>\<rparr>\<rparr>,
       \<lparr>div_a = Some \<lparr>a_attrs = [''title'' \<mapsto> ''Alien'', ''data-categoryid'' \<mapsto> ''7'',
           ''data-globalparentid'' \<mapsto> ''450'', ''data-globalproductid'' \<mapsto> ''451'',
           ''data-productid'' \<mapsto> ''456'',
           ''href'' \<mapsto> ''https://www.blu-ray.com/movies/Alien-Blu-ray/456/''],
          a_img = None\<rparr>\<rparr>] []
     = Inr [(''123'', \<lparr>movie_title = ''Sinners'', categoryID = ''7'', parentID = ''120'',
               gproductID = ''121'', productID = ''123'',
               productURL = ''https://www.blu-ray.com/movies/Sinners-Blu-ray/123/'',
               productCover = ''123_medium.jpg''\<rparr>),
            (''456'', \<lparr>movie_title = ''Alien'', categoryID = ''7'', parentID = ''450'',
               gproductID = ''451'', productID = ''456'',
               productURL = ''https://www.blu-ray.com/movies/Alien-Blu-ray/456/'',
               productCover = []\<rparr>)]
   \<and> re_plain ''sinners''
   \<and> search_tool (\<lambda>pattern s. Inl ReError) ''sinners''
      [\<lparr>div_a = Some \<lparr>a_attrs = [''title'' \<mapsto> ''Sinners'', ''data-categoryid'' \<mapsto> ''7'',
           ''data-globalparentid'' \<mapsto> ''120'', ''data-globalproductid'' \<mapsto> ''121'',
           ''data-productid'' \<mapsto> ''123'',
           ''href'' \<mapsto> ''https://www.blu-ray.com/movies/Sinners-Blu-ray/123/''],
          a_img = Some \<lparr>img_attrs = [''src'' \<mapsto> ''123_medium.jpg'']\<rparr>\<rparr>\<rparr>,
       \<lparr>div_a = Some \<lparr>a_attrs = [''title'' \<mapsto> ''Alien'', ''data-categoryid'' \<mapsto> ''7'',
           ''data-globalparentid'' \<mapsto> ''450'', ''data-globalproductid'' \<mapsto> ''451'',
           ''data-productid'' \<mapsto> ''456'',
           ''href'' \<mapsto> ''https://www.blu-ray.com/movies/Alien-Blu-ray/456/''],
          a_img = None\<rparr>\<rparr>]
     = ([''Results:'', ''   ID: 123'', ''Title: Sinners'',
         '' Page: https://www.blu-ray.com/movies/Sinners-Blu-ray/123/'',
         ''Cover: 123_medium.jpg'', []], None)"
proof -
  have ex: "extractor
      [\<lparr>div_a = Some \<lparr>a_attrs = [''title'' \<mapsto> ''Sinners'', ''data-categoryid'' \<mapsto> ''7'',
           ''data-globalparentid'' \<mapsto> ''120'', ''data-globalproductid'' \<mapsto> ''121'',
           ''data-productid'' \<mapsto> ''123'',
           ''href'' \<mapsto> ''https://www.blu-ray.com/movies/Sinners-Blu-ray/123/''],
          a_img = Some \<lparr>img_attrs = [''src'' \<mapsto> ''123_medium.jpg'']\<rparr>\<rparr>\<rparr>,
       \<lparr>div_a = Some \<lparr>a_attrs = [''title'' \<mapsto> ''Alien'', ''data-categoryid'' \<mapsto> ''7'',
           ''data-globalparentid'' \<mapsto> ''450'', ''data-globalproductid'' \<mapsto> ''451'',
           ''data-productid'' \<mapsto> ''456'',
           ''href'' \<mapsto> ''https://www.blu-ray.com/movies/Alien-Blu-ray/456/''],
          a_img = None\<rparr>\<rparr>] []
     = Inr [(''123'', \<lparr>movie_title = ''Sinners'', categoryID = ''7'', parentID = ''120'',
               gproductID = ''121'', productID = ''123'',
               productURL = ''https://www.blu-ray.com/movies/Sinners-Blu-ray/123/'',
               productCover = ''123_medium.jpg''\<rparr>),
            (''456'', \<lparr>movie_title = ''Alien'', categoryID = ''7'', parentID = ''450'',
               gproductID = ''451'', productID = ''456'',
               productURL = ''https://www.blu-ray.com/movies/Alien-Blu-ray/456/'',
               productCover = []\<rparr>)]"
    by code_simp
  have plain: "re_plain ''sinners''"
    by code_simp
  have yes: "ci_contains ''sinners'' ''Sinners''"
    by code_simp
  have no: "\<not> ci_contains ''sinners'' ''Alien''"
    by code_simp
  from search_filter_output [OF ex, of "\<lambda>pattern s. Inl ReError" "''sinners''"] ex plain yes no
  show ?thesis by (simp add: entry_lines_def)
qed

text \<open>
  The claim as written fails: the keyword \<open>se.en\<close> prints the entry titled \<open>Seven\<close>,
  whose title does not contain \<open>se.en\<close>; the dot of the pattern matches the \<open>v\<close>.
\<close>

theorem search_filter_counterexample:
  "search_tool (\<lambda>pattern s. Inl ReError) ''se.en''
      [\<lparr>div_a = Some \<lparr>a_attrs = [''title'' \<mapsto> ''Seven'', ''data-categoryid'' \<mapsto> ''7'',
           ''data-globalparentid'' \<mapsto> ''70'', ''data-globalproductid'' \<mapsto> ''71'',
           ''data-productid'' \<mapsto> ''77'',
           ''href'' \<mapsto> ''https://www.blu-ray.com/movies/Seven-Blu-ray/77/''],
          a_img = None\<rparr>\<rparr>]
     = ([''Results:'', ''   ID: 77'', ''Title: Seven'',
         '' Page: https://www.blu-ray.com/movies/Seven-Blu-ray/77/'', ''Cover: '', []], None)
   \<and> \<not> ci_contains ''se.en'' ''Seven''"
  by code_simp

text \<open>
  C7. When the extractor gives no entry, the tool prints the header and the message
  \<open>No results. Try fewer words or check your spelling.\<close> and nothing else, for every
  keyword; no entry block is printed and no exception ends the run.
\<close>

theorem no_results_message:
  assumes "extractor searchresults [] = Inr []"
  shows "search_tool other K searchresults = ([''Results:'', no_results], None)"
  using assms by (simp add: search_tool_def)

theorem no_results_message_witness:
  "extractor [\<lparr>div_a = None\<rparr>] [] = Inr []
   \<and> search_tool (\<lambda>pattern s. Inl ReError) ''sinners'' [\<lparr>div_a = None\<rparr>]
       = ([''Results:'', ''No results. Try fewer words or check your spelling.''], None)"
proof -
  have ex: "extractor [\<lparr>div_a = None\<rparr>] [] = Inr []"
    by simp
  from no_results_message [OF ex, of "\<lambda>pattern s. Inl ReError" "''sinners''"] ex
  show ?thesis by (simp add: no_results_def)
qed

text \<open>
  C9. When the extractor gives at least one entry and the keyword matches the title of
  none of them, the tool prints the header \<open>Results:\<close> and nothing else: no entry
  block, and not the message, which is printed only for an empty result set.
\<close>

theorem header_only:
  assumes "extractor searchresults [] = Inr movies"
    and "movies \<noteq> []"
    and "\<forall>m \<in> snd ` set movies. re_search other K (movie_title m) = Inr False"
  shows "search_tool other K searchresults = ([''Results:''], None)"
  using assms by (simp add: search_tool_def print_loop_none)

theorem header_only_witness:
  "extractor
      [\<lparr>div_a = Some \<lparr>a_attrs = [''title'' \<mapsto> ''Sinners'', ''data-categoryid'' \<mapsto> ''7'',
           ''data-globalparentid'' \<mapsto> ''120'', ''data-globalproductid'' \<mapsto> ''121'',
           ''data-productid'' \<mapsto> ''123'',
           ''href'' \<mapsto> ''https://www.blu-ray.com/movies/Sinners-Blu-ray/123/''],
          a_img = None\<rparr>\<rparr>] []
     = Inr [(''123'', \<lparr>movie_title = ''Sinners'', categoryID = ''7'', parentID = ''120'',
               gproductID = ''121'', productID = ''123'',
               productURL = ''https://www.blu-ray.com/movies/Sinners-Blu-ray/123/'',
               productCover = []\<rparr>)]
   \<and> re_search (\<lambda>pattern s. Inl ReError) ''alien'' ''Sinners'' = Inr False
   \<and> search_tool (\<lambda>pattern s. Inl ReError) ''alien''
      [\<lparr>div_a = Some \<lparr>a_attrs = [''title'' \<mapsto> ''Sinners'', ''data-categoryid'' \<mapsto> ''7'',
           ''data-globalparentid'' \<mapsto> ''120'', ''data-globalproductid'' \<mapsto> ''121'',
           ''data-productid'' \<mapsto> ''123'',
           ''href'' \<mapsto> ''https://www.blu-ray.com/movies/Sinners-Blu-ray/123/''],
          a_img = None\<rparr>\<rparr>]
     = ([''Results:''], None)"
proof -
  have ex: "extractor
      [\<lparr>div_a = Some \<lparr>a_attrs = [''title'' \<mapsto> ''Sinners'', ''data-categoryid'' \<mapsto> ''7'',
           ''data-globalparentid'' \<mapsto> ''120'', ''data-globalproductid'' \<mapsto> ''121'',
           ''data-productid'' \<mapsto> ''123'',
           ''href'' \<mapsto> ''https://www.blu-ray.com/movies/Sinners-Blu-ray/123/''],
          a_img = None\<rparr>\<rparr>] []
     = Inr [(''123'', \<lparr>movie_title = ''Sinners'', categoryID = ''7'', parentID = ''120'',
               gproductID = ''121'', productID = ''123'',
               productURL = ''https://www.blu-ray.com/movies/Sinners-Blu-ray/123/'',
               productCover = []\<rparr>)]"
    by code_simp
  have no: "re_search (\<lambda>pattern s. Inl ReError) ''alien'' ''Sinners'' = Inr False"
    by code_simp
  from header_only [OF ex, of "\<lambda>pattern s. Inl ReError" "''alien''"] ex no
  show ?thesis by simp
qed

end
